theory Spec2Isabelle
  imports Complex_Main "HOL-Library.Word"
begin

section \<open>Offer exchange: result classification\<close>

text \<open>
  The header \<^verbatim>\<open>src/transactions/OfferExchange.h\<close> declares the exchange
  results and their classification. The amounts are \<^verbatim>\<open>int64_t\<close>, modelled as
  64-bit words; the test \<^verbatim>\<open>!= 0\<close> is the comparison with the zero word.

  \<^verbatim>\<open>
  enum class ExchangeResultType { NORMAL, REDUCED_TO_ZERO, BOGUS };

  struct ExchangeResult
  {
      int64_t numWheatReceived;
      int64_t numSheepSend;
      bool reduced;

      ExchangeResultType
      type() const
      {
          if (numWheatReceived != 0 && numSheepSend != 0)
              return ExchangeResultType::NORMAL;
          else
              return reduced ? ExchangeResultType::REDUCED_TO_ZERO
                             : ExchangeResultType::BOGUS;
      }
  };
  \<close>
\<close>

datatype ExchangeResultType = NORMAL | REDUCED_TO_ZERO | BOGUS

record ExchangeResult =
  numWheatReceived :: "64 word"
  numSheepSend :: "64 word"
  reduced :: bool

definition type :: "ExchangeResult \<Rightarrow> ExchangeResultType" where
  "type r =
     (if numWheatReceived r \<noteq> 0 \<and> numSheepSend r \<noteq> 0 then NORMAL
      else (if reduced r then REDUCED_TO_ZERO else BOGUS))"

section \<open>Offer adjustment\<close>

text \<open>
  The header declares
  \<^verbatim>\<open>int64_t adjustOffer(Price const& price, int64_t maxWheatSend, int64_t maxSheepReceive);\<close>
  and nothing more: neither the type \<^verbatim>\<open>Price\<close> nor the body is part of the
  header.
\<close>

text \<open>
  Modelled from the spec: the type \<^verbatim>\<open>Price\<close>, declared outside the header. The
  data model describes it as an exact rational, given by a numerator and a denominator
  that are signed integers.
\<close>

record Price =
  numerator :: int
  denominator :: int

definition priceValue :: "Price \<Rightarrow> rat" where
  "priceValue price = of_int (numerator price) / of_int (denominator price)"

text \<open>
  Modelled from the spec: the body of \<^verbatim>\<open>adjustOffer\<close>, of which the header has
  only the declaration. The component design gives its result as the lesser of
  \<^verbatim>\<open>maxWheatSend\<close> and the floor of \<^verbatim>\<open>maxSheepReceive / price\<close>, and the
  design notes require rational arithmetic to be done on integers, in a widened domain,
  before the result is truncated to \<^verbatim>\<open>int64_t\<close>. The quotient of
  \<^verbatim>\<open>maxSheepReceive\<close> by the price is therefore computed as the integer quotient of
  \<^verbatim>\<open>maxSheepReceive * denominator\<close> by \<^verbatim>\<open>numerator\<close> on unbounded integers
  (\<open>div\<close> on \<open>int\<close> rounds down), and the result is cast back to 64 bits.
\<close>

definition adjustOffer :: "Price \<Rightarrow> 64 word \<Rightarrow> 64 word \<Rightarrow> 64 word" where
  "adjustOffer price maxWheatSend maxSheepReceive =
     word_of_int
       (min (sint maxWheatSend)
            ((sint maxSheepReceive * denominator price) div numerator price))"

section \<open>The crossing loop\<close>

text \<open>
  The header declares the three outcome enumerations and the loop itself:
  \<^verbatim>\<open>
  enum class OfferFilterResult { eKeep, eStop };
  enum class ConvertResult { eOK, ePartial, eFilterStop };
  enum class CrossOfferResult { eOfferPartial, eOfferTaken, eOfferCantConvert };

  // buys wheat with sheep, crossing as many offers as necessary
  ConvertResult convertWithOffers(
      AbstractLedgerTxn& ltx, Asset const& sheep, int64_t maxSheepSent,
      int64_t& sheepSend, Asset const& wheat, int64_t maxWheatReceive,
      int64_t& wheatReceived, bool isPathPayment,
      std::function<OfferFilterResult(LedgerTxnEntry const&)> filter,
      std::vector<ClaimOfferAtom>& offerTrail);
  \<close>
  The body of the loop, the ledger transaction, the ledger entries, the assets and the
  trade records are not part of the header. The ledger \<open>'l\<close>, the offers \<open>'o\<close>, the
  assets \<open>'a\<close> and the trade records \<open>'c\<close> are left as type parameters; the ordered
  retrieval of resting offers and the crossing of one offer, which the header's
  orientation comment attributes to the ledger and to \<^verbatim>\<open>crossOfferV10\<close>, are
  parameters of the loop.
\<close>

datatype OfferFilterResult = eKeep | eStop

datatype ConvertResult = eOK | ePartial | eFilterStop

datatype CrossOfferResult = eOfferPartial | eOfferTaken | eOfferCantConvert

text \<open>
  Modelled from the spec: the one fatal condition of the loop, a detected accounting
  invariant violation, which aborts the enclosing ledger transaction. Every other
  outcome is a value of \<open>ConvertResult\<close>.
\<close>

datatype FatalError = InvariantViolation

text \<open>
  Modelled from the spec: what crossing one resting offer yields, for a crossing function
  that is not part of the header: its classification, the wheat received and the sheep
  sent by this cross, the ledger after the cross (offer mutated or deleted, assets
  transferred) and the trade record of the cross.
\<close>

record ('l, 'c) CrossOutcome =
  crossResult :: CrossOfferResult
  crossWheatReceived :: "64 word"
  crossSheepSend :: "64 word"
  crossLedger :: 'l
  crossAtom :: 'c

text \<open>
  Modelled from the spec: the state the loop threads through its iterations, made of
  what the declaration passes by reference: the ledger transaction \<^verbatim>\<open>ltx\<close>, the
  running totals \<^verbatim>\<open>sheepSend\<close> and \<^verbatim>\<open>wheatReceived\<close> and the append-only
  \<^verbatim>\<open>offerTrail\<close>. The field \<open>crossed\<close> counts the crosses performed.
\<close>

record ('l, 'c) ConvertState =
  ltx :: 'l
  sheepSend :: "64 word"
  wheatReceived :: "64 word"
  offerTrail :: "'c list"
  crossed :: nat

text \<open>
  Modelled from the spec: "remaining caps are exhausted". The remaining cap on each side
  is the supplied cap less the running total; a side is exhausted when nothing positive
  remains of it (amounts are signed 64-bit integers).
\<close>

definition capsExhausted :: "64 word \<Rightarrow> 64 word \<Rightarrow> ('l, 'c) ConvertState \<Rightarrow> bool" where
  "capsExhausted maxSheepSent maxWheatReceive st \<longleftrightarrow>
     sint (maxSheepSent - sheepSend st) \<le> 0 \<or> sint (maxWheatReceive - wheatReceived st) \<le> 0"

text \<open>
  Modelled from the spec: the result of a loop that ends without a filter stop,
  \<open>eOK\<close> or \<open>ePartial\<close> "depending on whether the full requested amount was
  satisfied", read as: \<open>eOK\<close> when a remaining cap is exhausted, \<open>ePartial\<close> when
  capacity remains on both sides.
\<close>

definition finish :: "64 word \<Rightarrow> 64 word \<Rightarrow> ('l, 'c) ConvertState \<Rightarrow> ConvertResult" where
  "finish maxSheepSent maxWheatReceive st =
     (if capsExhausted maxSheepSent maxWheatReceive st then eOK else ePartial)"

text \<open>
  Modelled from the spec: the effect of one successful cross on the loop state. The
  ledger becomes the ledger after the cross, the amounts of the cross are added to the
  running totals, and exactly one trade record is appended to the trail.
\<close>

definition applyCross ::
  "('l, 'c) CrossOutcome \<Rightarrow> ('l, 'c) ConvertState \<Rightarrow> ('l, 'c) ConvertState" where
  "applyCross out st =
     st\<lparr>ltx := crossLedger out,
        sheepSend := sheepSend st + crossSheepSend out,
        wheatReceived := wheatReceived st + crossWheatReceived out,
        offerTrail := offerTrail st @ [crossAtom out],
        crossed := Suc (crossed st)\<rparr>"

text \<open>
  Modelled from the spec: the iterations of \<^verbatim>\<open>convertWithOffers\<close>, whose body is not
  part of the header, over the resting offers in the order the ledger supplies them
  (cheapest first). Per iteration, as the component design lists the steps:
  \<^item> if no offer remains, or the remaining caps are exhausted, the loop ends with
    \<open>eOK\<close> or \<open>ePartial\<close>;
  \<^item> the caller's filter is applied to the offer; \<open>eStop\<close> ends the loop at once with
    \<open>eFilterStop\<close> and leaves the offer untouched;
  \<^item> on \<open>eKeep\<close> the offer is crossed within the remaining caps; a fatal invariant
    violation (\<open>None\<close>) aborts;
  \<^item> \<open>eOfferCantConvert\<close>: the offer is skipped without any mutation and the loop goes
    on to the next offer;
  \<^item> \<open>eOfferPartial\<close>: the cross is applied and the loop stops;
  \<^item> \<open>eOfferTaken\<close>: the cross is applied and the loop goes on.
  The caller's \<^verbatim>\<open>filter\<close> is named \<open>offerFilter\<close> here.
\<close>

fun convertLoop ::
  "('l \<Rightarrow> 'o \<Rightarrow> 64 word \<Rightarrow> 64 word \<Rightarrow> bool \<Rightarrow> ('l, 'c) CrossOutcome option)
   \<Rightarrow> ('o \<Rightarrow> OfferFilterResult) \<Rightarrow> bool \<Rightarrow> 64 word \<Rightarrow> 64 word
   \<Rightarrow> 'o list \<Rightarrow> ('l, 'c) ConvertState
   \<Rightarrow> FatalError + (ConvertResult \<times> ('l, 'c) ConvertState)" where
  "convertLoop crossOffer offerFilter isPathPayment maxSheepSent maxWheatReceive [] st =
     Inr (finish maxSheepSent maxWheatReceive st, st)"
| "convertLoop crossOffer offerFilter isPathPayment maxSheepSent maxWheatReceive
     (offer # rest) st =
     (if capsExhausted maxSheepSent maxWheatReceive st
      then Inr (finish maxSheepSent maxWheatReceive st, st)
      else (case offerFilter offer of
              eStop \<Rightarrow> Inr (eFilterStop, st)
            | eKeep \<Rightarrow>
                (case crossOffer (ltx st) offer (maxWheatReceive - wheatReceived st)
                        (maxSheepSent - sheepSend st) isPathPayment of
                   None \<Rightarrow> Inl InvariantViolation
                 | Some out \<Rightarrow>
                     (case crossResult out of
                        eOfferCantConvert \<Rightarrow>
                          convertLoop crossOffer offerFilter isPathPayment maxSheepSent
                            maxWheatReceive rest st
                      | eOfferPartial \<Rightarrow>
                          Inr (finish maxSheepSent maxWheatReceive (applyCross out st),
                               applyCross out st)
                      | eOfferTaken \<Rightarrow>
                          convertLoop crossOffer offerFilter isPathPayment maxSheepSent
                            maxWheatReceive rest (applyCross out st)))))"

text \<open>
  Modelled from the spec: \<^verbatim>\<open>convertWithOffers\<close> itself, with the parameters of its
  declaration in their order, preceded by the two collaborators. The running totals
  start at zero, the trail is the caller's, and the candidates are the resting offers
  selling \<open>wheat\<close> for \<open>sheep\<close> as the ledger orders them.
\<close>

definition convertWithOffers ::
  "('l \<Rightarrow> 'a \<Rightarrow> 'a \<Rightarrow> 'o list)
   \<Rightarrow> ('l \<Rightarrow> 'o \<Rightarrow> 64 word \<Rightarrow> 64 word \<Rightarrow> bool \<Rightarrow> ('l, 'c) CrossOutcome option)
   \<Rightarrow> 'l \<Rightarrow> 'a \<Rightarrow> 64 word \<Rightarrow> 'a \<Rightarrow> 64 word \<Rightarrow> bool
   \<Rightarrow> ('o \<Rightarrow> OfferFilterResult) \<Rightarrow> 'c list
   \<Rightarrow> FatalError + (ConvertResult \<times> ('l, 'c) ConvertState)" where
  "convertWithOffers loadBestOffers crossOffer ledger sheep maxSheepSent wheat maxWheatReceive
     isPathPayment offerFilter trail =
     convertLoop crossOffer offerFilter isPathPayment maxSheepSent maxWheatReceive
       (loadBestOffers ledger sheep wheat)
       \<lparr>ltx = ledger, sheepSend = 0, wheatReceived = 0, offerTrail = trail, crossed = 0\<rparr>"

section \<open>Properties of the classification\<close>

text \<open>
  C1. For every exchange result, \<open>type\<close> is \<open>NORMAL\<close> when both amounts are
  nonzero; otherwise it is \<open>REDUCED_TO_ZERO\<close> when the \<open>reduced\<close> flag is set and
  \<open>BOGUS\<close> when it is not.
\<close>

theorem type_classification:
  "(numWheatReceived r \<noteq> 0 \<and> numSheepSend r \<noteq> 0 \<longrightarrow> type r = NORMAL) \<and>
   (\<not> (numWheatReceived r \<noteq> 0 \<and> numSheepSend r \<noteq> 0) \<and> reduced r
      \<longrightarrow> type r = REDUCED_TO_ZERO) \<and>
   (\<not> (numWheatReceived r \<noteq> 0 \<and> numSheepSend r \<noteq> 0) \<and> \<not> reduced r
      \<longrightarrow> type r = BOGUS)"
  by (simp add: type_def)

theorem type_classification_witness:
  "type \<lparr>numWheatReceived = 25, numSheepSend = 2, reduced = False\<rparr> = NORMAL \<and>
   type \<lparr>numWheatReceived = 0, numSheepSend = 2, reduced = True\<rparr> = REDUCED_TO_ZERO \<and>
   type \<lparr>numWheatReceived = 25, numSheepSend = 0, reduced = False\<rparr> = BOGUS"
  using type_classification
          [of "\<lparr>numWheatReceived = 25, numSheepSend = 2, reduced = False\<rparr>"]
        type_classification
          [of "\<lparr>numWheatReceived = 0, numSheepSend = 2, reduced = True\<rparr>"]
        type_classification
          [of "\<lparr>numWheatReceived = 25, numSheepSend = 0, reduced = False\<rparr>"]
  by simp

text \<open>
  C2 as stated: a result with exactly one zero amount would be \<open>BOGUS\<close> whatever the
  \<open>reduced\<close> flag. The flag decides: with \<open>reduced\<close> set, zero wheat against five
  sheep is classified \<open>REDUCED_TO_ZERO\<close>.
\<close>

theorem type_asymmetric_reduced_counterexample:
  "numWheatReceived \<lparr>numWheatReceived = 0, numSheepSend = 5, reduced = True\<rparr> = 0 \<and>
   numSheepSend \<lparr>numWheatReceived = 0, numSheepSend = 5, reduced = True\<rparr> \<noteq> 0 \<and>
   type \<lparr>numWheatReceived = 0, numSheepSend = 5, reduced = True\<rparr> \<noteq> BOGUS"
  by (simp add: type_def)

text \<open>
  C2, amended. For every exchange result in which exactly one of the two amounts is
  zero, \<open>type\<close> is \<open>BOGUS\<close> when the \<open>reduced\<close> flag is false and
  \<open>REDUCED_TO_ZERO\<close> when it is true.
\<close>

theorem type_asymmetric:
  assumes "(numWheatReceived r = 0) \<noteq> (numSheepSend r = 0)"
  shows "type r = (if reduced r then REDUCED_TO_ZERO else BOGUS)"
  using assms by (auto simp: type_def)

theorem type_asymmetric_witness:
  "type \<lparr>numWheatReceived = 0, numSheepSend = 5, reduced = False\<rparr> = BOGUS \<and>
   type \<lparr>numWheatReceived = 7, numSheepSend = 0, reduced = True\<rparr> = REDUCED_TO_ZERO"
  using type_asymmetric
          [of "\<lparr>numWheatReceived = 0, numSheepSend = 5, reduced = False\<rparr>"]
        type_asymmetric
          [of "\<lparr>numWheatReceived = 7, numSheepSend = 0, reduced = True\<rparr>"]
  by simp

text \<open>
  C9. A result with both amounts zero is \<open>BOGUS\<close> exactly when the \<open>reduced\<close> flag
  is false, and \<open>REDUCED_TO_ZERO\<close> exactly when it is true; in particular zero, zero
  and \<open>reduced = false\<close> is \<open>BOGUS\<close>.
\<close>

theorem type_zero_zero:
  assumes "numWheatReceived r = 0" and "numSheepSend r = 0"
  shows "(type r = BOGUS \<longleftrightarrow> \<not> reduced r) \<and> (type r = REDUCED_TO_ZERO \<longleftrightarrow> reduced r)"
  using assms by (simp add: type_def)

theorem type_zero_zero_witness:
  "type \<lparr>numWheatReceived = 0, numSheepSend = 0, reduced = False\<rparr> = BOGUS \<and>
   type \<lparr>numWheatReceived = 0, numSheepSend = 0, reduced = True\<rparr> = REDUCED_TO_ZERO"
  using type_zero_zero
          [of "\<lparr>numWheatReceived = 0, numSheepSend = 0, reduced = False\<rparr>"]
        type_zero_zero
          [of "\<lparr>numWheatReceived = 0, numSheepSend = 0, reduced = True\<rparr>"]
  by simp

text \<open>
  C10. When both amounts are nonzero, \<open>type\<close> is \<open>NORMAL\<close> whatever the
  \<open>reduced\<close> flag: setting the flag to any value leaves the classification
  unchanged.
\<close>

theorem type_normal_ignores_reduced:
  assumes "numWheatReceived r \<noteq> 0" and "numSheepSend r \<noteq> 0"
  shows "type r = NORMAL \<and> type (r\<lparr>reduced := b\<rparr>) = type r"
  using assms by (simp add: type_def)

theorem type_normal_ignores_reduced_witness:
  "type \<lparr>numWheatReceived = 25, numSheepSend = 2, reduced = True\<rparr> = NORMAL \<and>
   type (\<lparr>numWheatReceived = 25, numSheepSend = 2, reduced = True\<rparr>\<lparr>reduced := False\<rparr>)
     = type \<lparr>numWheatReceived = 25, numSheepSend = 2, reduced = True\<rparr>"
  using type_normal_ignores_reduced
          [of "\<lparr>numWheatReceived = 25, numSheepSend = 2, reduced = True\<rparr>" False]
  by simp

section \<open>Properties of the offer adjustment\<close>

lemma floor_quotient_by_price:
  "\<lfloor>(of_int a :: rat) / priceValue price\<rfloor> = (a * denominator price) div numerator price"
proof -
  have "(of_int a :: rat) / priceValue price
          = of_int (a * denominator price) / of_int (numerator price)"
    by (simp add: priceValue_def)
  then show ?thesis
    by (simp only: floor_divide_of_int_eq)
qed

lemma sint_word_of_int_64:
  assumes "- (2 ^ 63) \<le> k" and "k < 2 ^ 63"
  shows "sint (word_of_int k :: 64 word) = k"
  using assms by (simp add: sint_sbintrunc' signed_take_bit_int_eq_self)

text \<open>
  C6. For every price that is a ratio of positive integers and every pair of
  non-negative caps, \<open>adjustOffer\<close> returns the lesser of \<open>maxWheatSend\<close> and the
  floor of \<open>maxSheepReceive\<close> divided by the exact rational price.
\<close>

theorem adjustOffer_min_floor:
  assumes "0 < numerator price" and "0 < denominator price"
    and "0 \<le> sint maxWheatSend" and "0 \<le> sint maxSheepReceive"
  shows "sint (adjustOffer price maxWheatSend maxSheepReceive)
           = min (sint maxWheatSend)
                 \<lfloor>(of_int (sint maxSheepReceive) :: rat) / priceValue price\<rfloor>"
proof -
  let ?q = "(sint maxSheepReceive * denominator price) div numerator price"
  have q: "0 \<le> ?q"
    using assms by (simp add: pos_imp_zdiv_nonneg_iff)
  have "sint maxWheatSend < 2 ^ (LENGTH(64) - 1)"
    by (rule sint_lt)
  then have hi: "min (sint maxWheatSend) ?q < 2 ^ 63"
    by simp
  have lo: "- (2 ^ 63) \<le> min (sint maxWheatSend) ?q"
    using q assms(3) by simp
  have "sint (adjustOffer price maxWheatSend maxSheepReceive) = min (sint maxWheatSend) ?q"
    unfolding adjustOffer_def using lo hi by (rule sint_word_of_int_64)
  then show ?thesis
    by (simp only: floor_quotient_by_price)
qed

theorem adjustOffer_min_floor_witness:
  "sint (adjustOffer \<lparr>numerator = 3, denominator = 2\<rparr> 10 10) = 6 \<and>
   sint (adjustOffer \<lparr>numerator = 3, denominator = 2\<rparr> 4 10) = 4"
proof -
  have a: "\<lfloor>(10 :: rat) / priceValue \<lparr>numerator = 3, denominator = 2\<rparr>\<rfloor> = 6"
    using floor_quotient_by_price [of 10 "\<lparr>numerator = 3, denominator = 2\<rparr>"] by simp
  show ?thesis
    using adjustOffer_min_floor [of "\<lparr>numerator = 3, denominator = 2\<rparr>" 10 10]
          adjustOffer_min_floor [of "\<lparr>numerator = 3, denominator = 2\<rparr>" 4 10]
    by (simp add: a)
qed

text \<open>
  C7. \<open>adjustOffer\<close> is idempotent: applied to its own output, with the same price
  and the same \<open>maxSheepReceive\<close>, it returns that output.
\<close>

theorem adjustOffer_idempotent:
  "adjustOffer price (adjustOffer price maxWheatSend maxSheepReceive) maxSheepReceive
     = adjustOffer price maxWheatSend maxSheepReceive"
proof -
  let ?q = "(sint maxSheepReceive * denominator price) div numerator price"
  show ?thesis
  proof (cases "sint maxWheatSend \<le> ?q")
    case True
    then have "adjustOffer price maxWheatSend maxSheepReceive = maxWheatSend"
      by (simp add: adjustOffer_def min_def)
    then show ?thesis by simp
  next
    case False
    then have first: "adjustOffer price maxWheatSend maxSheepReceive = word_of_int ?q"
      by (simp add: adjustOffer_def min_def)
    have "sint maxWheatSend < 2 ^ (LENGTH(64) - 1)"
      by (rule sint_lt)
    with False have hi: "?q < 2 ^ 63" by simp
    have "min (sint (word_of_int ?q :: 64 word)) ?q = ?q \<or>
          (word_of_int (sint (word_of_int ?q :: 64 word)) :: 64 word) = word_of_int ?q"
      by simp
    then have "(word_of_int (min (sint (word_of_int ?q :: 64 word)) ?q) :: 64 word)
                 = word_of_int ?q"
      by (auto simp: min_def)
    then show ?thesis
      unfolding first by (simp add: adjustOffer_def)
  qed
qed

section \<open>Properties of the crossing loop\<close>

lemma applyCross_trail:
  "length (offerTrail (applyCross out st)) = Suc (length (offerTrail st))"
  "crossed (applyCross out st) = Suc (crossed st)"
  by (simp_all add: applyCross_def)

text \<open>
  Every cross appends exactly one trade record: over a whole run the trail grows by the
  number of crosses.
\<close>

lemma convertLoop_trail:
  "convertLoop crossOffer offerFilter pp maxS maxW offers st = Inr (res, st')
   \<Longrightarrow> length (offerTrail st') + crossed st = length (offerTrail st) + crossed st'"
proof (induction offers arbitrary: st)
  case Nil
  then show ?case by simp
next
  case (Cons offer rest)
  have taken: "?case"
    if "convertLoop crossOffer offerFilter pp maxS maxW rest (applyCross out st) = Inr (res, st')"
    for out
    using Cons.IH [OF that] by (simp add: applyCross_trail)
  from Cons.prems show ?case
    by (auto split: if_splits OfferFilterResult.splits option.splits CrossOfferResult.splits
          intro: Cons.IH taken simp: applyCross_trail)
qed

text \<open>
  C8. When the incoming order has capacity on both sides, so that the loop evaluates the
  first resting offer the ledger supplies, and the caller's filter returns \<open>eStop\<close> on
  that offer, \<open>convertWithOffers\<close> returns \<open>eFilterStop\<close> having crossed no offer:
  the running totals are zero, the trail is the caller's trail with nothing appended, and
  the ledger (the current offer included) is the one it was given.
\<close>

theorem convertWithOffers_filter_stop:
  assumes "loadBestOffers ledger sheep wheat = offer # rest"
    and "0 < sint maxSheepSent" and "0 < sint maxWheatReceive"
    and "offerFilter offer = eStop"
  shows "convertWithOffers loadBestOffers crossOffer ledger sheep maxSheepSent wheat
           maxWheatReceive isPathPayment offerFilter trail
         = Inr (eFilterStop,
                \<lparr>ltx = ledger, sheepSend = 0, wheatReceived = 0, offerTrail = trail,
                 crossed = 0\<rparr>)"
  using assms by (simp add: convertWithOffers_def capsExhausted_def)

theorem convertWithOffers_filter_stop_witness:
  "convertWithOffers (\<lambda>ledger sheep wheat. ledger) (\<lambda>ledger offer w s p. None)
     [7 :: nat, 9] ''sheep'' 2 ''wheat'' 25 False (\<lambda>offer. eStop) ([] :: nat list)
   = Inr (eFilterStop,
          \<lparr>ltx = [7, 9], sheepSend = 0, wheatReceived = 0, offerTrail = [], crossed = 0\<rparr>)"
  using convertWithOffers_filter_stop
          [of "\<lambda>ledger sheep wheat. ledger" "[7 :: nat, 9]" "''sheep''" "''wheat''" 7 "[9]"
              2 25 "\<lambda>offer. eStop" "\<lambda>ledger offer w s p. None" False "[] :: nat list"]
  by simp

end
